theory Spec2Isabelle
  imports Complex_Main
begin

section \<open>Playback-state persistence of the web player wrapper (main.cpp)\<close>

text \<open>
  The development embeds the state persistence logic of \<^verbatim>\<open>main.cpp\<close>: the callback of
  the 4-second \<^verbatim>\<open>stateTimer\<close> (capture), the \<^verbatim>\<open>loadFinished\<close> handler (restore) and the
  two injected scripts \<^verbatim>\<open>js_read_state\<close> and \<^verbatim>\<open>js_restore_state_template\<close>.

  Conventions of the embedding:
  \<^item> a \<^verbatim>\<open>QString\<close> and a \<^verbatim>\<open>QByteArray\<close> are both the UTF-8 byte sequence of the text, so
    \<^verbatim>\<open>toUtf8\<close> and \<^verbatim>\<open>fromUtf8\<close> are the identity;
  \<^item> a finite IEEE double is the real number it denotes (the scripts only compare and
    select numbers, they never compute with them); the two zeros are identified;
  \<^item> Qt's JSON parser and writer and the page's \<^verbatim>\<open>JSON.stringify\<close> are library code
    outside the repository: they are parameters of the model (record \<open>codec\<close>);
  \<^item> the file at \<^verbatim>\<open>stateFile\<close> is explicit state, with flags for whether
    \<^verbatim>\<open>QFile::open\<close> succeeds;
  \<^item> timers are discrete: one run of the capture callback is one tick of the 4-second
    timer, one step of the restore loop is one 500 ms tick of \<^verbatim>\<open>setInterval\<close>.
\<close>

subsection \<open>JSON values (QJsonValue, QJsonObject, QJsonDocument)\<close>

type_synonym bytes = string

datatype QJsonValue =
    JNull
  | JBool bool
  | JDouble real
  | JString string
  | JArray "QJsonValue list"
  | JObject "string \<Rightarrow> QJsonValue option"
  | JUndefined

type_synonym QJsonObject = "string \<rightharpoonup> QJsonValue"

text \<open>A parsed document holds an object or an array.\<close>

datatype QJsonDocument = DocObject QJsonObject | DocArray "QJsonValue list"

text \<open>\<^verbatim>\<open>QJsonDocument::object()\<close>: the empty object when the document is an array.\<close>

definition object :: "QJsonDocument \<Rightarrow> QJsonObject" where
  "object doc = (case doc of DocObject obj \<Rightarrow> obj | DocArray _ \<Rightarrow> Map.empty)"

text \<open>\<^verbatim>\<open>QJsonObject::value(key)\<close>: \<^verbatim>\<open>QJsonValue::Undefined\<close> for a missing key.\<close>

definition obj_value :: "QJsonObject \<Rightarrow> string \<Rightarrow> QJsonValue" where
  "obj_value obj key = (case obj key of Some v \<Rightarrow> v | None \<Rightarrow> JUndefined)"

text \<open>The typed readers of \<^verbatim>\<open>QJsonValue\<close>, each with its default for a value of another type.\<close>

definition toString :: "QJsonValue \<Rightarrow> string \<Rightarrow> string" where
  "toString v dflt = (case v of JString s \<Rightarrow> s | _ \<Rightarrow> dflt)"

definition toDouble :: "QJsonValue \<Rightarrow> real \<Rightarrow> real" where
  "toDouble v dflt = (case v of JDouble d \<Rightarrow> d | _ \<Rightarrow> dflt)"

definition toBool :: "QJsonValue \<Rightarrow> bool \<Rightarrow> bool" where
  "toBool v dflt = (case v of JBool b \<Rightarrow> b | _ \<Rightarrow> dflt)"

subsection \<open>JavaScript numbers and truthiness\<close>

datatype js_number = NaN | NegInfinity | Finite real | Infinity

text \<open>\<open>a || b\<close> on a number \<open>a\<close>: \<open>NaN\<close> and zero are falsy.\<close>

definition js_or :: "js_number \<Rightarrow> js_number \<Rightarrow> js_number" where
  "js_or a b = (if a = NaN \<or> a = Finite 0 then b else a)"

fun js_le :: "js_number \<Rightarrow> js_number \<Rightarrow> bool" where
  "js_le NegInfinity _ = True"
| "js_le _ Infinity = True"
| "js_le (Finite x) (Finite y) = (x \<le> y)"
| "js_le _ _ = False"

definition Math_min :: "js_number \<Rightarrow> js_number \<Rightarrow> js_number" where
  "Math_min a b = (if a = NaN \<or> b = NaN then NaN else if js_le a b then a else b)"

text \<open>Truthiness of a property of the \<open>state\<close> literal; a missing property is \<open>undefined\<close>.\<close>

fun js_truthy :: "QJsonValue option \<Rightarrow> bool" where
  "js_truthy None = False"
| "js_truthy (Some JUndefined) = False"
| "js_truthy (Some JNull) = False"
| "js_truthy (Some (JBool b)) = b"
| "js_truthy (Some (JDouble d)) = (d \<noteq> 0)"
| "js_truthy (Some (JString s)) = (s \<noteq> [])"
| "js_truthy (Some (JArray _)) = True"
| "js_truthy (Some (JObject _)) = True"

subsection \<open>The page (content surface)\<close>

text \<open>
  A property of \<^verbatim>\<open>window.player\<close> that the scripts test and then call: absent (falsy),
  present with a call that throws, or present with a call that returns.
\<close>

datatype 'a accessor = Absent | Throws | Returns 'a

record player_object =
  getCurrentTime :: "js_number accessor"
  isPlaying :: "bool accessor"
  seek :: "unit accessor"
  play :: "unit accessor"

record audio_element =
  currentTime :: js_number
  paused :: bool
  readyState :: nat
  duration :: js_number

record page =
  location_hash :: string
  location_pathname :: string
  document_title :: string
  audio :: "audio_element option"
  player :: "player_object option"

text \<open>The object literal that \<^verbatim>\<open>js_read_state\<close> passes to \<^verbatim>\<open>JSON.stringify\<close>.\<close>

record descriptor =
  d_id :: string
  d_time :: js_number
  d_paused :: bool

subsection \<open>The structured-data codec (library code, a parameter)\<close>

text \<open>
  \<open>fromJson\<close> is \<^verbatim>\<open>QJsonDocument::fromJson\<close> with \<open>None\<close> for
  \<^verbatim>\<open>err.error != QJsonParseError::NoError\<close>; \<open>toJson\<close> is
  \<^verbatim>\<open>toJson(QJsonDocument::Compact)\<close>; \<open>stringify\<close> is the page's \<^verbatim>\<open>JSON.stringify\<close>
  on the three-field literal.
\<close>

record codec =
  fromJson :: "bytes \<Rightarrow> QJsonDocument option"
  toJson :: "QJsonDocument \<Rightarrow> bytes"
  stringify :: "descriptor \<Rightarrow> string"

subsection \<open>The state file\<close>

text \<open>
  \<open>contents = None\<close>: \<^verbatim>\<open>f.exists()\<close> is false. The two flags say whether
  \<^verbatim>\<open>f.open(QIODevice::ReadOnly)\<close> and \<^verbatim>\<open>f.open(QIODevice::WriteOnly)\<close> succeed.
\<close>

record storage =
  contents :: "bytes option"
  opens_ReadOnly :: bool
  opens_WriteOnly :: bool

text \<open>
  \<^verbatim>\<open>if (f.open(QIODevice::WriteOnly)) { f.write(data); f.close(); }\<close>: opening write-only
  truncates, so the data replaces the file; a failed open is swallowed.
\<close>

definition write_file :: "storage \<Rightarrow> bytes \<Rightarrow> storage" where
  "write_file fs data = (if opens_WriteOnly fs then fs\<lparr>contents := Some data\<rparr> else fs)"

subsection \<open>Capture: \<^verbatim>\<open>js_read_state\<close> and the timer callback\<close>

text \<open>\<^verbatim>\<open>location.hash || location.pathname || document.title || 'unknown'\<close>\<close>

definition page_id :: "page \<Rightarrow> string" where
  "page_id p =
     (if location_hash p \<noteq> [] then location_hash p
      else if location_pathname p \<noteq> [] then location_pathname p
      else if document_title p \<noteq> [] then document_title p
      else ''unknown'')"

text \<open>
  \<open>time\<close> and \<open>paused\<close> as the script computes them. With an audio element:
  \<^verbatim>\<open>audio.currentTime || 0\<close> and \<^verbatim>\<open>audio.paused\<close>. Without one, the accessors of
  \<^verbatim>\<open>window.player\<close>, each inside its own \<^verbatim>\<open>try\<close>: a missing or throwing accessor
  leaves the initial value (\<open>0\<close>, \<open>true\<close>).
\<close>

definition read_time :: "page \<Rightarrow> js_number" where
  "read_time p =
     (case audio p of
        Some a \<Rightarrow> js_or (currentTime a) (Finite 0)
      | None \<Rightarrow>
          (case player p of
             None \<Rightarrow> Finite 0
           | Some pl \<Rightarrow> (case getCurrentTime pl of Returns t \<Rightarrow> t | _ \<Rightarrow> Finite 0)))"

definition read_paused :: "page \<Rightarrow> bool" where
  "read_paused p =
     (case audio p of
        Some a \<Rightarrow> paused a
      | None \<Rightarrow>
          (case player p of
             None \<Rightarrow> True
           | Some pl \<Rightarrow> (case isPlaying pl of Returns b \<Rightarrow> \<not> b | _ \<Rightarrow> True)))"

text \<open>
  The script's result. None of the modelled page operations throws outside the inner
  \<^verbatim>\<open>try\<close> blocks, so the outer \<^verbatim>\<open>catch\<close> (the literal \<^verbatim>\<open>{id:'unknown', time:0, paused:true}\<close>)
  is not reached.
\<close>

definition js_read_state :: "codec \<Rightarrow> page \<Rightarrow> string" where
  "js_read_state c p =
     stringify c \<lparr>d_id = page_id p, d_time = read_time p, d_paused = read_paused p\<rparr>"

text \<open>
  The callback of \<^verbatim>\<open>page->runJavaScript(js_read_state, ...)\<close>. \<open>result\<close> is \<open>None\<close> for an
  invalid \<^verbatim>\<open>QVariant\<close> and \<open>Some (result.toString())\<close> otherwise; \<open>now\<close> is
  \<^verbatim>\<open>QDateTime::currentDateTimeUtc().toString(Qt::ISODate)\<close>.
\<close>

definition stateTimer_callback :: "codec \<Rightarrow> string \<Rightarrow> string option \<Rightarrow> storage \<Rightarrow> storage" where
  "stateTimer_callback c now result fs =
     (case result of
        None \<Rightarrow> fs
      | Some jsonStr \<Rightarrow>
          if jsonStr = [] then fs
          else
            (case fromJson c jsonStr of
               None \<Rightarrow> write_file fs jsonStr
             | Some doc \<Rightarrow>
                 write_file fs
                   (toJson c (DocObject ((object doc)(''saved_at'' \<mapsto> JString now))))))"

text \<open>One tick of the timer on a page where the script runs to completion.\<close>

definition capture :: "codec \<Rightarrow> string \<Rightarrow> page \<Rightarrow> storage \<Rightarrow> storage" where
  "capture c now p fs = stateTimer_callback c now (Some (js_read_state c p)) fs"

subsection \<open>Restore: the \<^verbatim>\<open>loadFinished\<close> handler\<close>

text \<open>The object \<open>state\<close> that the handler rebuilds from the parsed file.\<close>

definition rebuild_state :: "QJsonObject \<Rightarrow> QJsonObject" where
  "rebuild_state obj =
     Map.empty
       (''id'' \<mapsto> JString (toString (obj_value obj ''id'') (toString (obj_value obj ''id'') [])),
        ''time'' \<mapsto> JDouble (toDouble (obj_value obj ''time'') 0),
        ''paused'' \<mapsto> JBool (toBool (obj_value obj ''paused'') True))"

text \<open>
  The handler returns the storage (it only reads) and the argument of the restore script
  it dispatches: \<open>None\<close> when it returns before \<^verbatim>\<open>page->runJavaScript(js)\<close>. The script
  text is the template with \<^verbatim>\<open>%1\<close> replaced by the compact JSON of \<open>state\<close>; the page
  evaluates that literal to the same value, so the model passes the value.
\<close>

definition loadFinished :: "codec \<Rightarrow> bool \<Rightarrow> storage \<Rightarrow> storage \<times> QJsonObject option" where
  "loadFinished c ok fs =
     (if \<not> ok then (fs, None)
      else
        (case contents fs of
           None \<Rightarrow> (fs, None)
         | Some data \<Rightarrow>
             if \<not> opens_ReadOnly fs then (fs, None)
             else
               (case fromJson c data of
                  None \<Rightarrow> (fs, None)
                | Some doc \<Rightarrow> (fs, Some (rebuild_state (object doc))))))"

subsection \<open>Restore: the injected script\<close>

text \<open>What the script does to the page.\<close>

datatype surface_action =
    SetCurrentTime real
  | AudioPlay
  | PlayerSeek "QJsonValue option"
  | PlayerPlay

text \<open>
  \<^verbatim>\<open>setOnce\<close>, for \<open>state.time\<close> a number \<open>t\<close>, on the audio element as it is at the moment of
  the call: \<open>None\<close> is \<^verbatim>\<open>return false\<close>. The value assigned to \<^verbatim>\<open>audio.currentTime\<close> is
  \<^verbatim>\<open>Math.min(state.time, audio.duration || state.time)\<close>; assigning a non-finite value throws,
  which the \<^verbatim>\<open>catch\<close> turns into \<^verbatim>\<open>return false\<close>. A rejected \<^verbatim>\<open>play()\<close> promise is swallowed,
  so \<open>AudioPlay\<close> records the call.
\<close>

definition setOnce :: "QJsonObject \<Rightarrow> real \<Rightarrow> audio_element \<Rightarrow> surface_action list option" where
  "setOnce state t a =
     (if readyState a > 0 then
        (case Math_min (Finite t) (js_or (duration a) (Finite t)) of
           Finite x \<Rightarrow>
             Some (SetCurrentTime x # (if \<not> js_truthy (state ''paused'') then [AudioPlay] else []))
         | _ \<Rightarrow> None)
      else None)"

text \<open>
  The outcome of one run of the script: \<open>Succeeded n acts\<close> when \<^verbatim>\<open>setOnce\<close> returned true
  at attempt \<open>n\<close> (\<open>0\<close> is the immediate call, \<open>k > 0\<close> the \<open>k\<close>-th tick of the interval);
  \<open>Exhausted n\<close> when the interval was cleared at tick \<open>n\<close> without success; \<open>Fallback acts\<close>
  when the script took the \<^verbatim>\<open>window.player\<close> branch.
\<close>

datatype restoration =
    Succeeded nat "surface_action list"
  | Exhausted nat
  | Fallback "surface_action list"

text \<open>
  The \<^verbatim>\<open>setInterval\<close> callback, iterated: \<^verbatim>\<open>tries++; if (setOnce() || tries > 20) clearInterval(t)\<close>.
  \<open>obs k\<close> is the audio element as the page has it at tick \<open>k\<close>.
\<close>

function interval_loop :: "QJsonObject \<Rightarrow> real \<Rightarrow> (nat \<Rightarrow> audio_element) \<Rightarrow> nat \<Rightarrow> restoration" where
  "interval_loop state t obs tries =
     (case setOnce state t (obs (tries + 1)) of
        Some acts \<Rightarrow> Succeeded (tries + 1) acts
      | None \<Rightarrow>
          if tries + 1 > 20 then Exhausted (tries + 1)
          else interval_loop state t obs (tries + 1))"
  by pat_completeness auto
termination
  by (relation "measure (\<lambda>(state, t, obs, tries). 21 - tries)") auto

text \<open>
  The \<^verbatim>\<open>window.player\<close> branch: \<^verbatim>\<open>seek(state.time)\<close>, then \<^verbatim>\<open>play()\<close> unless \<open>state.paused\<close>,
  in one \<^verbatim>\<open>try\<close> whose \<^verbatim>\<open>catch\<close> is empty. \<open>PlayerSeek\<close> carries the value of \<open>state.time\<close>
  (\<open>None\<close> is \<open>undefined\<close>).
\<close>

definition player_fallback :: "QJsonObject \<Rightarrow> player_object option \<Rightarrow> surface_action list" where
  "player_fallback state pl =
     (case pl of
        None \<Rightarrow> []
      | Some p \<Rightarrow>
          (case seek p of
             Returns _ \<Rightarrow>
               PlayerSeek (state ''time'') #
                 (if \<not> js_truthy (state ''paused'')
                  then (case play p of Returns _ \<Rightarrow> [PlayerPlay] | _ \<Rightarrow> [])
                  else [])
           | _ \<Rightarrow> []))"

text \<open>
  The script applied to \<open>state\<close>. \<open>au\<close> is the element that \<^verbatim>\<open>document.querySelector('audio')\<close>
  finds when the script starts, given by its observations over the attempts; \<open>pl\<close> is
  \<^verbatim>\<open>window.player\<close>. The audio branch needs \<^verbatim>\<open>audio && state && typeof state.time === 'number'\<close>;
  \<open>state\<close> is an object literal, hence truthy.
\<close>

definition js_restore_state ::
  "QJsonObject \<Rightarrow> (nat \<Rightarrow> audio_element) option \<Rightarrow> player_object option \<Rightarrow> restoration" where
  "js_restore_state state au pl =
     (case au of
        None \<Rightarrow> Fallback (player_fallback state pl)
      | Some obs \<Rightarrow>
          (case state ''time'' of
             Some (JDouble t) \<Rightarrow>
               (case setOnce state t (obs 0) of
                  Some acts \<Rightarrow> Succeeded 0 acts
                | None \<Rightarrow> interval_loop state t obs 0)
           | _ \<Rightarrow> Fallback (player_fallback state pl)))"

text \<open>A load event followed by the run of the dispatched script, if any.\<close>

definition restore ::
  "codec \<Rightarrow> bool \<Rightarrow> storage \<Rightarrow> (nat \<Rightarrow> audio_element) option \<Rightarrow> player_object option
     \<Rightarrow> storage \<times> restoration option" where
  "restore c ok fs au pl =
     (case loadFinished c ok fs of
        (fs', None) \<Rightarrow> (fs', None)
      | (fs', Some state) \<Rightarrow> (fs', Some (js_restore_state state au pl)))"

subsection \<open>Auxiliary notions for the statements\<close>

text \<open>
  The JSON value that \<^verbatim>\<open>JSON.stringify\<close> denotes for the three-field literal: a number that
  is not finite is written as \<open>null\<close>.
\<close>

definition descriptor_json :: "descriptor \<Rightarrow> QJsonObject" where
  "descriptor_json d =
     Map.empty
       (''id'' \<mapsto> JString (d_id d),
        ''time'' \<mapsto> (case d_time d of Finite x \<Rightarrow> JDouble x | _ \<Rightarrow> JNull),
        ''paused'' \<mapsto> JBool (d_paused d))"

text \<open>
  The values \<^verbatim>\<open>HTMLMediaElement.duration\<close> can take: \<open>NaN\<close> (unknown), a non-negative
  number of seconds, or \<open>+Infinity\<close> (unbounded stream).
\<close>

fun valid_duration :: "js_number \<Rightarrow> bool" where
  "valid_duration NaN = True"
| "valid_duration Infinity = True"
| "valid_duration (Finite d) = (0 \<le> d)"
| "valid_duration NegInfinity = False"

text \<open>The object literal \<^verbatim>\<open>{id: i, time: t, paused: p}\<close> as the restore script receives it.\<close>

definition state_literal :: "string \<Rightarrow> real \<Rightarrow> bool \<Rightarrow> QJsonObject" where
  "state_literal i t p = Map.empty(''id'' \<mapsto> JString i, ''time'' \<mapsto> JDouble t, ''paused'' \<mapsto> JBool p)"

subsection \<open>Concrete scenarios\<close>

text \<open>
  A small codec for running the model on concrete inputs. Its writer covers the keys of
  the descriptor and the numbers of the scenarios (string delimiters are left out of the
  sample texts); its parser reads back exactly the texts of \<open>demo_docs\<close> and rejects
  every other text.
\<close>

fun demo_value :: "QJsonValue \<Rightarrow> string" where
  "demo_value (JString s) = s"
| "demo_value (JBool b) = (if b then ''true'' else ''false'')"
| "demo_value (JDouble x) = (if x = 42 then ''42'' else if x = 500 then ''500'' else ''0'')"
| "demo_value _ = ''null''"

definition demo_field :: "string \<Rightarrow> QJsonObject \<Rightarrow> string" where
  "demo_field k obj = (case obj k of None \<Rightarrow> [] | Some v \<Rightarrow> k @ '':'' @ demo_value v @ '';'')"

definition demo_toJson :: "QJsonDocument \<Rightarrow> bytes" where
  "demo_toJson doc =
     (case doc of
        DocArray _ \<Rightarrow> ''[]''
      | DocObject obj \<Rightarrow>
          ''{'' @ demo_field ''id'' obj @ demo_field ''paused'' obj
            @ demo_field ''saved_at'' obj @ demo_field ''time'' obj @ ''}'')"

definition playing_descriptor :: descriptor where
  "playing_descriptor = \<lparr>d_id = ''#/song?id=1'', d_time = Finite 42, d_paused = False\<rparr>"

definition bare_descriptor :: descriptor where
  "bare_descriptor = \<lparr>d_id = ''#/song?id=1'', d_time = Finite 0, d_paused = True\<rparr>"

definition tick1 :: string where
  "tick1 = ''2025-01-01T00:00:04Z''"

definition tick2 :: string where
  "tick2 = ''2025-01-01T00:00:08Z''"

definition demo_docs :: "QJsonDocument list" where
  "demo_docs =
     [DocObject (descriptor_json playing_descriptor),
      DocObject ((descriptor_json playing_descriptor)(''saved_at'' \<mapsto> JString tick1)),
      DocObject ((descriptor_json playing_descriptor)(''saved_at'' \<mapsto> JString tick2)),
      DocObject (descriptor_json bare_descriptor),
      DocObject ((descriptor_json bare_descriptor)(''saved_at'' \<mapsto> JString tick1)),
      DocObject Map.empty,
      DocArray []]"

definition demo_codec :: codec where
  "demo_codec =
     \<lparr>fromJson = map_of (map (\<lambda>d. (demo_toJson d, d)) demo_docs),
      toJson = demo_toJson,
      stringify = (\<lambda>d. demo_toJson (DocObject (descriptor_json d)))\<rparr>"

definition demo_storage :: "bytes option \<Rightarrow> storage" where
  "demo_storage b = \<lparr>contents = b, opens_ReadOnly = True, opens_WriteOnly = True\<rparr>"

text \<open>A page that plays a song at second 42 of 200, and the same page before it builds its player.\<close>

definition playing_page :: page where
  "playing_page =
     \<lparr>location_hash = ''#/song?id=1'', location_pathname = ''/st/webplayer'',
      document_title = ''player'',
      audio = Some \<lparr>currentTime = Finite 42, paused = False, readyState = 4, duration = Finite 200\<rparr>,
      player = None\<rparr>"

definition bare_page :: page where
  "bare_page =
     \<lparr>location_hash = ''#/song?id=1'', location_pathname = ''/st/webplayer'',
      document_title = ''player'', audio = None, player = None\<rparr>"

text \<open>An audio element that reports ready from attempt \<open>n\<close> on, and one that never does.\<close>

definition ready_from :: "nat \<Rightarrow> js_number \<Rightarrow> nat \<Rightarrow> audio_element" where
  "ready_from n d k =
     \<lparr>currentTime = Finite 0, paused = True, readyState = (if k < n then 0 else 4), duration = d\<rparr>"

definition never_ready :: "nat \<Rightarrow> audio_element" where
  "never_ready k = \<lparr>currentTime = Finite 0, paused = True, readyState = 0, duration = NaN\<rparr>"

text \<open>A \<^verbatim>\<open>window.player\<close> whose four accessors exist and return.\<close>

definition working_player :: player_object where
  "working_player =
     \<lparr>getCurrentTime = Returns (Finite 42), isPlaying = Returns True,
      seek = Returns (), play = Returns ()\<rparr>"

section \<open>Properties\<close>

subsection \<open>Basic facts\<close>

declare interval_loop.simps [simp del]

lemma demo_texts:
  "demo_toJson (DocObject (descriptor_json playing_descriptor)) = ''{id:#/song?id=1;paused:false;time:42;}''"
  "demo_toJson (DocObject ((descriptor_json playing_descriptor)(''saved_at'' \<mapsto> JString tick1)))
     = ''{id:#/song?id=1;paused:false;saved_at:2025-01-01T00:00:04Z;time:42;}''"
  "demo_toJson (DocObject ((descriptor_json playing_descriptor)(''saved_at'' \<mapsto> JString tick2)))
     = ''{id:#/song?id=1;paused:false;saved_at:2025-01-01T00:00:08Z;time:42;}''"
  "demo_toJson (DocObject (descriptor_json bare_descriptor)) = ''{id:#/song?id=1;paused:true;time:0;}''"
  "demo_toJson (DocObject ((descriptor_json bare_descriptor)(''saved_at'' \<mapsto> JString tick1)))
     = ''{id:#/song?id=1;paused:true;saved_at:2025-01-01T00:00:04Z;time:0;}''"
  "demo_toJson (DocObject Map.empty) = ''{}''"
  "demo_toJson (DocArray []) = ''[]''"
  by (simp_all add: demo_toJson_def demo_field_def descriptor_json_def playing_descriptor_def
      bare_descriptor_def tick1_def tick2_def)

lemma demo_fromJson:
  "fromJson demo_codec b = map_of
     [(''{id:#/song?id=1;paused:false;time:42;}'', DocObject (descriptor_json playing_descriptor)),
      (''{id:#/song?id=1;paused:false;saved_at:2025-01-01T00:00:04Z;time:42;}'',
         DocObject ((descriptor_json playing_descriptor)(''saved_at'' \<mapsto> JString tick1))),
      (''{id:#/song?id=1;paused:false;saved_at:2025-01-01T00:00:08Z;time:42;}'',
         DocObject ((descriptor_json playing_descriptor)(''saved_at'' \<mapsto> JString tick2))),
      (''{id:#/song?id=1;paused:true;time:0;}'', DocObject (descriptor_json bare_descriptor)),
      (''{id:#/song?id=1;paused:true;saved_at:2025-01-01T00:00:04Z;time:0;}'',
         DocObject ((descriptor_json bare_descriptor)(''saved_at'' \<mapsto> JString tick1))),
      (''{}'', DocObject Map.empty),
      (''[]'', DocArray [])] b"
  by (simp add: demo_codec_def demo_docs_def demo_texts)

lemma demo_rejects: "fromJson demo_codec ''<html>'' = None"
  by (simp add: demo_fromJson)

lemma demo_reads_empty_object: "fromJson demo_codec ''{}'' = Some (DocObject Map.empty)"
  by (simp add: demo_fromJson)

lemma demo_reads_array: "fromJson demo_codec ''[]'' = Some (DocArray [])"
  by (simp add: demo_fromJson)

lemma write_file_opens [simp]:
  "opens_ReadOnly (write_file fs data) = opens_ReadOnly fs"
  "opens_WriteOnly (write_file fs data) = opens_WriteOnly fs"
  by (simp_all add: write_file_def)

lemma write_file_contents:
  "opens_WriteOnly fs \<Longrightarrow> contents (write_file fs data) = Some data"
  by (simp add: write_file_def)

lemma callback_parsed:
  "jsonStr \<noteq> [] \<Longrightarrow> fromJson c jsonStr = Some doc
   \<Longrightarrow> stateTimer_callback c now (Some jsonStr) fs
       = write_file fs (toJson c (DocObject ((object doc)(''saved_at'' \<mapsto> JString now))))"
  by (simp add: stateTimer_callback_def)

lemma capture_parsed:
  "js_read_state c p \<noteq> [] \<Longrightarrow> fromJson c (js_read_state c p) = Some doc
   \<Longrightarrow> capture c now p fs
       = write_file fs (toJson c (DocObject ((object doc)(''saved_at'' \<mapsto> JString now))))"
  by (simp add: capture_def callback_parsed)

lemma capture_rejected:
  "js_read_state c p \<noteq> [] \<Longrightarrow> fromJson c (js_read_state c p) = None
   \<Longrightarrow> capture c now p fs = write_file fs (js_read_state c p)"
  by (simp add: capture_def stateTimer_callback_def)

lemma rebuild_state_dom: "dom (rebuild_state obj) = {''id'', ''time'', ''paused''}"
  by (auto simp: rebuild_state_def)

lemma rebuild_state_saved_at: "rebuild_state (obj(''saved_at'' \<mapsto> v)) = rebuild_state obj"
  by (simp add: rebuild_state_def obj_value_def)

lemma rebuild_state_fields:
  "obj ''id'' = Some (JString i) \<Longrightarrow> obj ''time'' = Some (JDouble t) \<Longrightarrow> obj ''paused'' = Some (JBool p)
   \<Longrightarrow> rebuild_state obj = state_literal i t p"
  by (simp add: rebuild_state_def obj_value_def toString_def toDouble_def toBool_def
      state_literal_def)

lemma rebuild_state_empty:
  "rebuild_state Map.empty = state_literal [] 0 True"
  by (simp add: rebuild_state_def obj_value_def toString_def toDouble_def toBool_def
      state_literal_def)

lemma loadFinished_parsed:
  "ok \<Longrightarrow> contents fs = Some data \<Longrightarrow> opens_ReadOnly fs \<Longrightarrow> fromJson c data = Some doc
   \<Longrightarrow> loadFinished c ok fs = (fs, Some (rebuild_state (object doc)))"
  by (simp add: loadFinished_def)

subsection \<open>The clamp and one attempt\<close>

lemma setOnce_not_ready: "readyState a = 0 \<Longrightarrow> setOnce state t a = None"
  by (simp add: setOnce_def)

lemma setOnce_ready:
  "0 < readyState a \<Longrightarrow> setOnce state t a =
     (case Math_min (Finite t) (js_or (duration a) (Finite t)) of
        Finite x \<Rightarrow> Some (SetCurrentTime x # (if \<not> js_truthy (state ''paused'') then [AudioPlay] else []))
      | _ \<Rightarrow> None)"
  by (simp add: setOnce_def)

lemma clamp_positive: "0 < d \<Longrightarrow> Math_min (Finite t) (js_or (Finite d) (Finite t)) = Finite (min t d)"
  by (simp add: Math_min_def js_or_def min_def)

lemma clamp_unknown: "Math_min (Finite t) (js_or NaN (Finite t)) = Finite t"
  by (simp add: Math_min_def js_or_def)

lemma clamp_unbounded: "Math_min (Finite t) (js_or Infinity (Finite t)) = Finite t"
  by (simp add: Math_min_def js_or_def)

lemma clamp_valid:
  "valid_duration d \<Longrightarrow>
     \<exists>x. Math_min (Finite t) (js_or d (Finite t)) = Finite x \<and> x \<le> t \<and> (0 \<le> t \<longrightarrow> 0 \<le> x)
       \<and> (t < 0 \<longrightarrow> x = t)
       \<and> (\<forall>e. d = Finite e \<and> 0 < e \<longrightarrow> x = min t e)
       \<and> (d = NaN \<or> d = Infinity \<longrightarrow> x = t)"
  by (cases d) (auto simp: Math_min_def js_or_def min_def)

text \<open>
  One successful attempt on an element with a duration that a media element can report:
  the position assigned and the \<^verbatim>\<open>play()\<close> call.
\<close>

lemma setOnce_valid:
  assumes "0 < readyState a" and "valid_duration (duration a)"
  shows "\<exists>x. setOnce state t a
            = Some (SetCurrentTime x # (if \<not> js_truthy (state ''paused'') then [AudioPlay] else []))
          \<and> x \<le> t \<and> (0 \<le> t \<longrightarrow> 0 \<le> x) \<and> (t < 0 \<longrightarrow> x = t)
          \<and> (\<forall>e. duration a = Finite e \<and> 0 < e \<longrightarrow> x = min t e)
          \<and> (duration a = NaN \<or> duration a = Infinity \<longrightarrow> x = t)"
proof -
  from clamp_valid [OF assms(2), of t]
  obtain x where x: "Math_min (Finite t) (js_or (duration a) (Finite t)) = Finite x"
    and bounds: "x \<le> t" "0 \<le> t \<longrightarrow> 0 \<le> x" "t < 0 \<longrightarrow> x = t"
      "\<forall>e. duration a = Finite e \<and> 0 < e \<longrightarrow> x = min t e"
      "duration a = NaN \<or> duration a = Infinity \<longrightarrow> x = t"
    by blast
  have "setOnce state t a
      = Some (SetCurrentTime x # (if \<not> js_truthy (state ''paused'') then [AudioPlay] else []))"
    using assms(1) x by (simp add: setOnce_ready)
  with bounds show ?thesis by blast
qed

subsection \<open>The polling loop\<close>

text \<open>
  The loop is followed by computation induction. Starting from \<open>tries\<close>, it succeeds at the
  first tick at which \<^verbatim>\<open>setOnce\<close> returns true, provided that tick is at most the 21st, and
  it is cleared at the 21st tick otherwise.
\<close>

lemma interval_loop_succeeds:
  "tries < n \<Longrightarrow> n \<le> 21 \<Longrightarrow> (\<forall>k. tries < k \<and> k < n \<longrightarrow> setOnce state t (obs k) = None)
     \<Longrightarrow> setOnce state t (obs n) = Some acts
     \<Longrightarrow> interval_loop state t obs tries = Succeeded n acts"
proof (induction state t obs tries rule: interval_loop.induct)
  case (1 state t obs tries)
  show ?case
  proof (cases "tries + 1 = n")
    case True
    with "1.prems" show ?thesis
      by (subst interval_loop.simps) simp
  next
    case False
    with "1.prems" have later: "tries + 1 < n" by simp
    with "1.prems" have none: "setOnce state t (obs (tries + 1)) = None" by simp
    from later "1.prems" have small: "\<not> tries + 1 > 20" by simp
    have "interval_loop state t obs (tries + 1) = Succeeded n acts"
      using "1.IH" [OF none small later] "1.prems" by simp
    with none small show ?thesis
      by (subst interval_loop.simps) simp
  qed
qed

lemma interval_loop_exhausted:
  "tries \<le> 20 \<Longrightarrow> (\<forall>k. tries < k \<and> k \<le> 21 \<longrightarrow> setOnce state t (obs k) = None)
     \<Longrightarrow> interval_loop state t obs tries = Exhausted 21"
proof (induction state t obs tries rule: interval_loop.induct)
  case (1 state t obs tries)
  from "1.prems" have none: "setOnce state t (obs (tries + 1)) = None" by simp
  show ?case
  proof (cases "tries + 1 > 20")
    case True
    with "1.prems" have "tries + 1 = 21" by simp
    with none show ?thesis
      by (subst interval_loop.simps) simp
  next
    case False
    then have "tries + 1 \<le> 20" by simp
    then have "interval_loop state t obs (tries + 1) = Exhausted 21"
      using "1.IH" [OF none False] "1.prems" by simp
    with none False show ?thesis
      by (subst interval_loop.simps) simp
  qed
qed

lemma restore_script_succeeds:
  assumes "state ''time'' = Some (JDouble t)" and "n \<le> 21"
    and "\<forall>k<n. setOnce state t (obs k) = None"
    and "setOnce state t (obs n) = Some acts"
  shows "js_restore_state state (Some obs) pl = Succeeded n acts"
proof (cases "n = 0")
  case True
  with assms show ?thesis by (simp add: js_restore_state_def)
next
  case False
  with assms have "setOnce state t (obs 0) = None" by simp
  moreover have "interval_loop state t obs 0 = Succeeded n acts"
    using assms False by (intro interval_loop_succeeds) auto
  ultimately show ?thesis using assms by (simp add: js_restore_state_def)
qed

lemma restore_script_exhausted:
  assumes "state ''time'' = Some (JDouble t)"
    and "\<forall>k\<le>21. setOnce state t (obs k) = None"
  shows "js_restore_state state (Some obs) pl = Exhausted 21"
proof -
  have "interval_loop state t obs 0 = Exhausted 21"
    using assms by (intro interval_loop_exhausted) auto
  with assms show ?thesis by (simp add: js_restore_state_def)
qed

text \<open>The same facts for the object literal that the handler builds.\<close>

lemma state_literal_paused: "js_truthy (state_literal i t p ''paused'') = p"
  by (simp add: state_literal_def)

lemma restore_script_fallback: "js_restore_state (state_literal i t p) None pl
      = Fallback
          (case pl of
             None \<Rightarrow> []
           | Some q \<Rightarrow>
               (case seek q of
                  Returns _ \<Rightarrow>
                    PlayerSeek (Some (JDouble t)) #
                      (if p then [] else (case play q of Returns _ \<Rightarrow> [PlayerPlay] | _ \<Rightarrow> []))
                | _ \<Rightarrow> []))"
  by (simp add: js_restore_state_def player_fallback_def state_literal_def
        split: option.splits accessor.splits)

lemma setOnce_literal:
  assumes "0 < readyState a" and "valid_duration (duration a)"
  shows "\<exists>x. setOnce (state_literal i t p) t a = Some (SetCurrentTime x # (if p then [] else [AudioPlay]))
      \<and> x \<le> t \<and> (0 \<le> t \<longrightarrow> 0 \<le> x)
      \<and> (\<forall>d. duration a = Finite d \<and> 0 < d \<longrightarrow> x = min t d)
      \<and> (duration a = NaN \<or> duration a = Infinity \<longrightarrow> x = t)"
proof -
  have resume: "(if \<not> js_truthy (state_literal i t p ''paused'') then [AudioPlay] else [])
      = (if p then [] else [AudioPlay])"
    by (simp add: state_literal_def)
  from setOnce_valid [OF assms, of "state_literal i t p" t]
  obtain x where "setOnce (state_literal i t p) t a
        = Some (SetCurrentTime x # (if p then [] else [AudioPlay]))"
    and "x \<le> t" and "0 \<le> t \<longrightarrow> 0 \<le> x"
    and "\<forall>d. duration a = Finite d \<and> 0 < d \<longrightarrow> x = min t d"
    and "duration a = NaN \<or> duration a = Infinity \<longrightarrow> x = t"
    unfolding resume by blast
  then show ?thesis by blast
qed

subsection \<open>The scenarios, evaluated\<close>

lemma playing_extraction:
  "js_read_state demo_codec playing_page = ''{id:#/song?id=1;paused:false;time:42;}''"
  by (simp add: js_read_state_def demo_codec_def page_id_def read_time_def read_paused_def
      playing_page_def js_or_def demo_texts(1) [unfolded playing_descriptor_def])

lemma playing_parse:
  "fromJson demo_codec ''{id:#/song?id=1;paused:false;time:42;}''
     = Some (DocObject (descriptor_json playing_descriptor))"
  by (simp add: demo_fromJson)

lemma playing_saved_text:
  "toJson demo_codec (DocObject ((descriptor_json playing_descriptor)(''saved_at'' \<mapsto> JString tick1)))
     = ''{id:#/song?id=1;paused:false;saved_at:2025-01-01T00:00:04Z;time:42;}''"
  by (simp add: demo_codec_def demo_texts)

lemma playing_saved_text2:
  "toJson demo_codec (DocObject ((descriptor_json playing_descriptor)(''saved_at'' \<mapsto> JString tick2)))
     = ''{id:#/song?id=1;paused:false;saved_at:2025-01-01T00:00:08Z;time:42;}''"
  by (simp add: demo_codec_def demo_texts)

lemma playing_saved_parse:
  "fromJson demo_codec ''{id:#/song?id=1;paused:false;saved_at:2025-01-01T00:00:04Z;time:42;}''
     = Some (DocObject ((descriptor_json playing_descriptor)(''saved_at'' \<mapsto> JString tick1)))"
  by (simp add: demo_fromJson)

lemma playing_capture:
  "capture demo_codec tick1 playing_page (demo_storage b)
     = demo_storage (Some ''{id:#/song?id=1;paused:false;saved_at:2025-01-01T00:00:04Z;time:42;}'')"
  by (simp add: capture_def playing_extraction callback_parsed [OF _ playing_parse] object_def
      playing_saved_text write_file_def demo_storage_def)

lemma bare_page_id: "page_id bare_page = ''#/song?id=1''"
  by (simp add: page_id_def bare_page_def)

lemma bare_literal:
  "\<lparr>d_id = ''#/song?id=1'', d_time = Finite 0, d_paused = True\<rparr> = bare_descriptor"
  by (simp add: bare_descriptor_def)

lemma bare_stringify:
  "stringify demo_codec bare_descriptor = ''{id:#/song?id=1;paused:true;time:0;}''"
  by (simp add: demo_codec_def demo_texts)

lemma bare_parse:
  "fromJson demo_codec ''{id:#/song?id=1;paused:true;time:0;}''
     = Some (DocObject (descriptor_json bare_descriptor))"
  by (simp add: demo_fromJson)

lemma bare_saved:
  "(state_literal ''#/song?id=1'' 0 True)(''saved_at'' \<mapsto> JString tick1)
     = (descriptor_json bare_descriptor)(''saved_at'' \<mapsto> JString tick1)"
  by (simp add: descriptor_json_def bare_descriptor_def state_literal_def)

lemma bare_saved_text:
  "toJson demo_codec (DocObject ((descriptor_json bare_descriptor)(''saved_at'' \<mapsto> JString tick1)))
     = ''{id:#/song?id=1;paused:true;saved_at:2025-01-01T00:00:04Z;time:0;}''"
  by (simp add: demo_codec_def demo_texts)

lemma bare_saved_parse:
  "fromJson demo_codec ''{id:#/song?id=1;paused:true;saved_at:2025-01-01T00:00:04Z;time:0;}''
     = Some (DocObject ((descriptor_json bare_descriptor)(''saved_at'' \<mapsto> JString tick1)))"
  by (simp add: demo_fromJson)

subsection \<open>Capture: the fallback write\<close>

text \<open>
  C4. A non-empty extraction result that the parser rejects is written to the state file
  as it is: the file then holds exactly the bytes of the result, whatever it held before,
  and the capture time is not part of it. The write happens when the file opens for
  writing; a failed open leaves the storage as it was.
\<close>

theorem capture_fallback_write:
  assumes "jsonStr \<noteq> []" and "fromJson c jsonStr = None"
  shows "stateTimer_callback c now (Some jsonStr) fs
           = (if opens_WriteOnly fs then fs\<lparr>contents := Some jsonStr\<rparr> else fs)"
  using assms by (simp add: stateTimer_callback_def write_file_def)

theorem capture_fallback_write_witness:
  "stateTimer_callback demo_codec tick1 (Some ''<html>'') (demo_storage (Some ''{}''))
     = demo_storage (Some ''<html>'')"
  using capture_fallback_write [of "''<html>''" demo_codec tick1 "demo_storage (Some ''{}'')"]
  by (simp add: demo_rejects demo_storage_def)

subsection \<open>Capture: idempotence\<close>

text \<open>
  C5. Two consecutive captures of an unchanged page (the script returns the same non-empty
  text both times) write serialisations of the same object up to the capture time: when the
  text parses to \<open>doc\<close>, the first file is the compact JSON of \<open>object doc\<close> with \<open>saved_at\<close>
  set to the first time and the second file that of \<open>object doc\<close> with \<open>saved_at\<close> set to the
  second time. The two objects agree on every key other than \<open>saved_at\<close>, in particular on
  \<open>id\<close>, \<open>time\<close> and \<open>paused\<close>, and a restore rebuilds the same state from either. (When the
  text does not parse, both captures write the same raw text.)
\<close>

theorem capture_idempotent:
  assumes "opens_WriteOnly fs" and "js_read_state c p \<noteq> []"
  shows "(\<forall>doc. fromJson c (js_read_state c p) = Some doc \<longrightarrow>
            contents (capture c t1 p fs)
              = Some (toJson c (DocObject ((object doc)(''saved_at'' \<mapsto> JString t1))))
          \<and> contents (capture c t2 p (capture c t1 p fs))
              = Some (toJson c (DocObject ((object doc)(''saved_at'' \<mapsto> JString t2))))
          \<and> (\<forall>k. k \<noteq> ''saved_at'' \<longrightarrow>
                ((object doc)(''saved_at'' \<mapsto> JString t1)) k
                  = ((object doc)(''saved_at'' \<mapsto> JString t2)) k)
          \<and> rebuild_state ((object doc)(''saved_at'' \<mapsto> JString t1))
              = rebuild_state ((object doc)(''saved_at'' \<mapsto> JString t2)))
    \<and> (fromJson c (js_read_state c p) = None \<longrightarrow>
            contents (capture c t1 p fs) = Some (js_read_state c p)
          \<and> contents (capture c t2 p (capture c t1 p fs)) = Some (js_read_state c p))"
proof (intro conjI allI impI)
  fix doc
  assume parsed: "fromJson c (js_read_state c p) = Some doc"
  show "contents (capture c t1 p fs)
      = Some (toJson c (DocObject ((object doc)(''saved_at'' \<mapsto> JString t1))))"
    using assms by (simp add: capture_parsed [OF _ parsed] write_file_contents)
  show "contents (capture c t2 p (capture c t1 p fs))
      = Some (toJson c (DocObject ((object doc)(''saved_at'' \<mapsto> JString t2))))"
    using assms by (simp add: capture_parsed [OF _ parsed] write_file_contents)
  show "rebuild_state ((object doc)(''saved_at'' \<mapsto> JString t1))
      = rebuild_state ((object doc)(''saved_at'' \<mapsto> JString t2))"
    by (simp add: rebuild_state_saved_at)
next
  fix doc k
  assume "k \<noteq> ''saved_at''"
  then show "((object doc)(''saved_at'' \<mapsto> JString t1)) k
      = ((object doc)(''saved_at'' \<mapsto> JString t2)) k"
    by simp
next
  assume rejected: "fromJson c (js_read_state c p) = None"
  show "contents (capture c t1 p fs) = Some (js_read_state c p)"
    using assms by (simp add: capture_rejected [OF _ rejected] write_file_contents)
  show "contents (capture c t2 p (capture c t1 p fs)) = Some (js_read_state c p)"
    using assms by (simp add: capture_rejected [OF _ rejected] write_file_contents)
qed

theorem capture_idempotent_witness:
  "contents (capture demo_codec tick1 playing_page (demo_storage None))
     = Some ''{id:#/song?id=1;paused:false;saved_at:2025-01-01T00:00:04Z;time:42;}''
   \<and> contents (capture demo_codec tick2 playing_page
        (capture demo_codec tick1 playing_page (demo_storage None)))
     = Some ''{id:#/song?id=1;paused:false;saved_at:2025-01-01T00:00:08Z;time:42;}''"
proof -
  have opens: "opens_WriteOnly (demo_storage None)"
    by (simp add: demo_storage_def)
  have nonempty: "js_read_state demo_codec playing_page \<noteq> []"
    by (simp add: playing_extraction)
  have parsed: "fromJson demo_codec (js_read_state demo_codec playing_page)
      = Some (DocObject (descriptor_json playing_descriptor))"
    by (simp add: playing_extraction playing_parse)
  note both = capture_idempotent [OF opens nonempty, THEN conjunct1, rule_format, OF parsed,
      where ?t1.0 = tick1 and ?t2.0 = tick2]
  from both [THEN conjunct1] both [THEN conjunct2, THEN conjunct1]
  show ?thesis
    by (simp add: object_def playing_saved_text playing_saved_text2)
qed

subsection \<open>Capture: a page without a player\<close>

text \<open>
  C10. On a page with no audio element and without the accessors of \<^verbatim>\<open>window.player\<close>, the
  read script still returns a descriptor: its position is \<open>0\<close> and its paused flag is true.
  When the codec reads that text as the object it denotes and the file opens for writing,
  one tick of the capture timer replaces the state file, whatever it held, by that
  descriptor stamped with the capture time; a restore after that tick is handed position
  \<open>0\<close>, so a position persisted earlier is lost.
\<close>

theorem capture_without_player_overwrites:
  assumes "audio p = None"
    and "player p = None \<or> (\<exists>pl. player p = Some pl \<and> getCurrentTime pl = Absent \<and> isPlaying pl = Absent)"
  shows "js_read_state c p = stringify c \<lparr>d_id = page_id p, d_time = Finite 0, d_paused = True\<rparr>
    \<and> (stringify c \<lparr>d_id = page_id p, d_time = Finite 0, d_paused = True\<rparr> \<noteq> []
        \<and> fromJson c (stringify c \<lparr>d_id = page_id p, d_time = Finite 0, d_paused = True\<rparr>)
            = Some (DocObject (descriptor_json \<lparr>d_id = page_id p, d_time = Finite 0, d_paused = True\<rparr>))
        \<and> opens_WriteOnly fs
        \<longrightarrow> contents (capture c now p fs)
              = Some (toJson c (DocObject
                  ((state_literal (page_id p) 0 True)(''saved_at'' \<mapsto> JString now))))
          \<and> (opens_ReadOnly fs
              \<and> fromJson c (toJson c (DocObject
                    ((state_literal (page_id p) 0 True)(''saved_at'' \<mapsto> JString now))))
                = Some (DocObject ((state_literal (page_id p) 0 True)(''saved_at'' \<mapsto> JString now)))
              \<longrightarrow> loadFinished c True (capture c now p fs)
                    = (capture c now p fs, Some (state_literal (page_id p) 0 True))))"
proof -
  let ?d = "\<lparr>d_id = page_id p, d_time = Finite 0, d_paused = True\<rparr>"
  let ?saved = "(state_literal (page_id p) 0 True)(''saved_at'' \<mapsto> JString now)"
  have "read_time p = Finite 0" and "read_paused p = True"
    using assms by (auto simp: read_time_def read_paused_def)
  then have extraction: "js_read_state c p = stringify c ?d"
    by (simp add: js_read_state_def)
  have saved: "(object (DocObject (descriptor_json ?d)))(''saved_at'' \<mapsto> JString now) = ?saved"
    by (simp add: object_def descriptor_json_def state_literal_def)
  have written: "capture c now p fs = write_file fs (toJson c (DocObject ?saved))"
    if "stringify c ?d \<noteq> []" and "fromJson c (stringify c ?d) = Some (DocObject (descriptor_json ?d))"
  proof -
    have "js_read_state c p \<noteq> []"
      using that(1) by (simp add: extraction)
    moreover have "fromJson c (js_read_state c p) = Some (DocObject (descriptor_json ?d))"
      using that(2) by (simp add: extraction)
    ultimately have "capture c now p fs = write_file fs (toJson c (DocObject
        ((object (DocObject (descriptor_json ?d)))(''saved_at'' \<mapsto> JString now))))"
      by (rule capture_parsed)
    then show ?thesis by (simp only: saved)
  qed
  have reload: "loadFinished c True (write_file fs (toJson c (DocObject ?saved)))
      = (write_file fs (toJson c (DocObject ?saved)), Some (state_literal (page_id p) 0 True))"
    if "opens_WriteOnly fs" and "opens_ReadOnly fs"
      and "fromJson c (toJson c (DocObject ?saved)) = Some (DocObject ?saved)"
  proof -
    have "loadFinished c True (write_file fs (toJson c (DocObject ?saved)))
      = (write_file fs (toJson c (DocObject ?saved)), Some (rebuild_state (object (DocObject ?saved))))"
      using that by (intro loadFinished_parsed) (simp_all add: write_file_contents)
    moreover have "rebuild_state (object (DocObject ?saved)) = state_literal (page_id p) 0 True"
      by (simp add: object_def rebuild_state_saved_at rebuild_state_fields [unfolded state_literal_def]
        state_literal_def)
    ultimately show ?thesis by simp
  qed
  show ?thesis
    using extraction written reload by (auto simp: write_file_contents)
qed

theorem capture_without_player_overwrites_witness:
  "js_read_state demo_codec bare_page = ''{id:#/song?id=1;paused:true;time:0;}''
   \<and> contents (capture demo_codec tick1 bare_page
        (demo_storage (Some ''{id:#/song?id=1;paused:false;saved_at:2025-01-01T00:00:04Z;time:42;}'')))
     = Some ''{id:#/song?id=1;paused:true;saved_at:2025-01-01T00:00:04Z;time:0;}''
   \<and> snd (loadFinished demo_codec True (capture demo_codec tick1 bare_page
        (demo_storage (Some ''{id:#/song?id=1;paused:false;saved_at:2025-01-01T00:00:04Z;time:42;}''))))
     = Some (state_literal ''#/song?id=1'' 0 True)"
proof -
  have absent: "audio bare_page = None"
    "player bare_page = None
      \<or> (\<exists>pl. player bare_page = Some pl \<and> getCurrentTime pl = Absent \<and> isPlaying pl = Absent)"
    by (simp_all add: bare_page_def)
  note overwritten = capture_without_player_overwrites [OF absent, of demo_codec
      "demo_storage (Some ''{id:#/song?id=1;paused:false;saved_at:2025-01-01T00:00:04Z;time:42;}'')" tick1]
  then show ?thesis
    by (simp add: bare_page_id bare_literal bare_stringify bare_parse bare_saved bare_saved_text
        bare_saved_parse demo_storage_def)
qed

subsection \<open>Restore: the guards of the handler\<close>

text \<open>
  C6. On a load event whose success flag is false, or when the state file does not exist,
  or when it cannot be opened for reading, the handler dispatches no script (so nothing on
  the page is touched), leaves the storage as it is and has no error outcome.
\<close>

theorem restore_precondition_noop:
  assumes "\<not> ok \<or> contents fs = None \<or> \<not> opens_ReadOnly fs"
  shows "loadFinished c ok fs = (fs, None) \<and> restore c ok fs au pl = (fs, None)"
  using assms by (auto simp: loadFinished_def restore_def split: option.splits)

theorem restore_precondition_noop_witness:
  "loadFinished demo_codec True (demo_storage None) = (demo_storage None, None)
   \<and> restore demo_codec True (demo_storage None) (Some (ready_from 0 (Finite 200))) None
       = (demo_storage None, None)"
  using restore_precondition_noop [of True "demo_storage None" demo_codec
      "Some (ready_from 0 (Finite 200))" None]
  by (simp add: demo_storage_def)

text \<open>
  C7. When the contents of the state file fail to parse, the handler dispatches no script
  and leaves the storage as it is. In particular, after a fallback write (C4) the file
  holds the rejected text, so the next restore is abandoned: a fallback write is never
  restored.
\<close>

theorem restore_parse_failure_abandons:
  "(contents fs = Some data \<and> fromJson c data = None
      \<longrightarrow> loadFinished c ok fs = (fs, None) \<and> restore c ok fs au pl = (fs, None))
   \<and> (jsonStr \<noteq> [] \<and> fromJson c jsonStr = None \<and> opens_WriteOnly fs
      \<longrightarrow> contents (stateTimer_callback c now (Some jsonStr) fs) = Some jsonStr
        \<and> restore c ok (stateTimer_callback c now (Some jsonStr) fs) au pl
            = (stateTimer_callback c now (Some jsonStr) fs, None))"
  by (auto simp: loadFinished_def restore_def stateTimer_callback_def write_file_def
      split: option.splits)

theorem restore_parse_failure_abandons_witness:
  "restore demo_codec True (demo_storage (Some ''<html>'')) (Some (ready_from 0 (Finite 200))) None
     = (demo_storage (Some ''<html>''), None)
   \<and> restore demo_codec True
       (stateTimer_callback demo_codec tick1 (Some ''<html>'') (demo_storage None))
       (Some (ready_from 0 (Finite 200))) None
     = (demo_storage (Some ''<html>''), None)"
  using restore_parse_failure_abandons [of "demo_storage (Some ''<html>'')" "''<html>''" demo_codec
      True "Some (ready_from 0 (Finite 200))" None "''<html>''" tick1]
    restore_parse_failure_abandons [of "demo_storage None" "''<html>''" demo_codec
      True "Some (ready_from 0 (Finite 200))" None "''<html>''" tick1]
  by (simp add: demo_rejects demo_storage_def stateTimer_callback_def write_file_def)

subsection \<open>Restore: the rebuilt descriptor\<close>

text \<open>
  C8. For a state file that parses, the object handed to the restore script has exactly
  the keys \<open>id\<close>, \<open>time\<close> and \<open>paused\<close>; a key missing from the file takes its default (the
  empty string, \<open>0\<close>, \<open>true\<close>) and a key present with the expected type keeps its value.
\<close>

theorem restore_normalizes:
  assumes "ok" and "contents fs = Some data" and "opens_ReadOnly fs" and "fromJson c data = Some doc"
  shows "loadFinished c ok fs = (fs, Some (rebuild_state (object doc)))
    \<and> dom (rebuild_state (object doc)) = {''id'', ''time'', ''paused''}
    \<and> (object doc ''id'' = None \<longrightarrow> rebuild_state (object doc) ''id'' = Some (JString []))
    \<and> (object doc ''time'' = None \<longrightarrow> rebuild_state (object doc) ''time'' = Some (JDouble 0))
    \<and> (object doc ''paused'' = None \<longrightarrow> rebuild_state (object doc) ''paused'' = Some (JBool True))
    \<and> (\<forall>s. object doc ''id'' = Some (JString s) \<longrightarrow> rebuild_state (object doc) ''id'' = Some (JString s))
    \<and> (\<forall>t. object doc ''time'' = Some (JDouble t) \<longrightarrow> rebuild_state (object doc) ''time'' = Some (JDouble t))
    \<and> (\<forall>b. object doc ''paused'' = Some (JBool b) \<longrightarrow> rebuild_state (object doc) ''paused'' = Some (JBool b))"
proof -
  have "loadFinished c ok fs = (fs, Some (rebuild_state (object doc)))"
    using assms by (rule loadFinished_parsed)
  moreover have "dom (rebuild_state (object doc)) = {''id'', ''time'', ''paused''}"
    by (rule rebuild_state_dom)
  ultimately show ?thesis
    by (simp add: rebuild_state_def obj_value_def toString_def toDouble_def toBool_def)
qed

theorem restore_normalizes_witness:
  "loadFinished demo_codec True (demo_storage (Some ''{}''))
     = (demo_storage (Some ''{}''), Some (state_literal [] 0 True))"
  using restore_normalizes [of True "demo_storage (Some ''{}'')" "''{}''" demo_codec "DocObject Map.empty"]
  by (simp add: demo_reads_empty_object demo_storage_def object_def rebuild_state_empty)

text \<open>
  C9. A state file that parses to a JSON array is not a parse failure: \<^verbatim>\<open>doc.object()\<close> is the
  empty object, so the script is dispatched with the all-default descriptor
  \<^verbatim>\<open>{id:"", time:0, paused:true}\<close>, and an audio element that reports ready (with a
  duration an audio element can have) is set to position \<open>0\<close> and not played.
\<close>

theorem restore_non_object_document:
  assumes "ok" and "contents fs = Some data" and "opens_ReadOnly fs"
    and "fromJson c data = Some (DocArray xs)"
  shows "loadFinished c ok fs = (fs, Some (state_literal [] 0 True))
    \<and> (\<forall>obs n. n \<le> 20 \<and> (\<forall>k<n. readyState (obs k) = 0) \<and> 0 < readyState (obs n)
            \<and> valid_duration (duration (obs n))
          \<longrightarrow> restore c ok fs (Some obs) pl = (fs, Some (Succeeded n [SetCurrentTime 0])))"
proof -
  let ?state = "state_literal [] 0 True"
  have load: "loadFinished c ok fs = (fs, Some ?state)"
    using loadFinished_parsed [OF assms]
    by (simp add: object_def rebuild_state_empty)
  have "js_restore_state ?state (Some obs) pl = Succeeded n [SetCurrentTime 0]"
    if n: "n \<le> 20" and before: "\<forall>k<n. readyState (obs k) = 0" and ready: "0 < readyState (obs n)"
      and valid: "valid_duration (duration (obs n))" for obs n
  proof (rule restore_script_succeeds [where t = 0])
    show "?state ''time'' = Some (JDouble 0)"
      by (simp add: state_literal_def)
    show "n \<le> 21"
      using n by simp
    show "\<forall>k<n. setOnce ?state 0 (obs k) = None"
      using before by (simp add: setOnce_not_ready)
    have "Math_min (Finite 0) (js_or (duration (obs n)) (Finite 0)) = Finite 0"
      using valid by (cases "duration (obs n)") (auto simp: Math_min_def js_or_def)
    then show "setOnce ?state 0 (obs n) = Some [SetCurrentTime 0]"
      using ready by (simp add: setOnce_ready state_literal_def)
  qed
  with load show ?thesis by (simp add: restore_def)
qed

theorem restore_non_object_document_witness:
  "restore demo_codec True (demo_storage (Some ''[]'')) (Some (ready_from 0 (Finite 200))) None
     = (demo_storage (Some ''[]''), Some (Succeeded 0 [SetCurrentTime 0]))"
  using restore_non_object_document [of True "demo_storage (Some ''[]'')" "''[]''" demo_codec "[]" None]
  by (simp add: demo_reads_array demo_storage_def ready_from_def)

subsection \<open>Restore: the clamp\<close>

text \<open>
  C3, as stated, asks that the position applied to a ready audio element is never negative,
  for every persisted position including negative ones. The script has no lower bound: with
  a persisted position of \<open>-5\<close> and a duration of \<open>200\<close> it assigns \<open>-5\<close> to
  \<^verbatim>\<open>audio.currentTime\<close>.
\<close>

theorem clamp_negative_counterexample:
  "js_restore_state (state_literal ''#/song?id=1'' (- 5) True) (Some (ready_from 0 (Finite 200))) None
     = Succeeded 0 [SetCurrentTime (- 5)]
   \<and> \<not> (0::real) \<le> - 5"
  by (simp add: js_restore_state_def state_literal_def setOnce_def ready_from_def Math_min_def
      js_or_def)

text \<open>
  C3, amended. On a ready audio element the script assigns \<open>min t d\<close> when the duration is a
  positive number \<open>d\<close> (persisted \<open>500\<close>, duration \<open>200\<close>: \<open>200\<close>) and the persisted position
  \<open>t\<close> itself when the duration is unknown (\<open>NaN\<close>) or unbounded (\<open>+Infinity\<close>). For every
  duration a media element can report and every persisted position \<open>t\<close>, the assigned
  position is at most \<open>t\<close>, it is non-negative whenever \<open>t\<close> is non-negative, and a negative
  \<open>t\<close> is assigned as it is.
\<close>

theorem setOnce_clamps:
  assumes "0 < readyState a"
  shows "(\<forall>d. duration a = Finite d \<and> 0 < d
            \<longrightarrow> setOnce state t a
                  = Some (SetCurrentTime (min t d) # (if \<not> js_truthy (state ''paused'') then [AudioPlay] else [])))
    \<and> (duration a = NaN \<or> duration a = Infinity
            \<longrightarrow> setOnce state t a
                  = Some (SetCurrentTime t # (if \<not> js_truthy (state ''paused'') then [AudioPlay] else [])))
    \<and> (valid_duration (duration a)
            \<longrightarrow> (\<exists>x. setOnce state t a
                        = Some (SetCurrentTime x # (if \<not> js_truthy (state ''paused'') then [AudioPlay] else []))
                      \<and> x \<le> t \<and> (0 \<le> t \<longrightarrow> 0 \<le> x) \<and> (t < 0 \<longrightarrow> x = t)))"
proof (intro conjI allI impI)
  fix d
  assume "duration a = Finite d \<and> 0 < d"
  then show "setOnce state t a
      = Some (SetCurrentTime (min t d) # (if \<not> js_truthy (state ''paused'') then [AudioPlay] else []))"
    using assms by (simp add: setOnce_ready clamp_positive)
next
  assume "duration a = NaN \<or> duration a = Infinity"
  then show "setOnce state t a
      = Some (SetCurrentTime t # (if \<not> js_truthy (state ''paused'') then [AudioPlay] else []))"
    using assms by (auto simp: setOnce_ready clamp_unknown clamp_unbounded)
next
  assume "valid_duration (duration a)"
  with assms show "\<exists>x. setOnce state t a
        = Some (SetCurrentTime x # (if \<not> js_truthy (state ''paused'') then [AudioPlay] else []))
      \<and> x \<le> t \<and> (0 \<le> t \<longrightarrow> 0 \<le> x) \<and> (t < 0 \<longrightarrow> x = t)"
    using setOnce_valid [of a state t] by blast
qed

theorem setOnce_clamps_witness:
  "setOnce (state_literal ''#/song?id=1'' 500 True) 500 (ready_from 0 (Finite 200) 0)
     = Some [SetCurrentTime 200]
   \<and> setOnce (state_literal ''#/song?id=1'' (- 5) True) (- 5) (ready_from 0 Infinity 0)
     = Some [SetCurrentTime (- 5)]"
proof -
  have ready: "0 < readyState (ready_from 0 (Finite 200) 0)" "0 < readyState (ready_from 0 Infinity 0)"
    by (simp_all add: ready_from_def)
  have "setOnce (state_literal ''#/song?id=1'' 500 True) 500 (ready_from 0 (Finite 200) 0)
      = Some [SetCurrentTime 200]"
    using setOnce_clamps [OF ready(1), of "state_literal ''#/song?id=1'' 500 True" 500]
    by (simp add: ready_from_def state_literal_def)
  moreover from setOnce_clamps [OF ready(2), of "state_literal ''#/song?id=1'' (- 5) True" "- 5"]
  obtain x where "setOnce (state_literal ''#/song?id=1'' (- 5) True) (- 5) (ready_from 0 Infinity 0)
      = Some (SetCurrentTime x
          # (if \<not> js_truthy (state_literal ''#/song?id=1'' (- 5) True ''paused'') then [AudioPlay] else []))"
    and "x = - 5"
    by (auto simp: ready_from_def)
  then have "setOnce (state_literal ''#/song?id=1'' (- 5) True) (- 5) (ready_from 0 Infinity 0)
      = Some [SetCurrentTime (- 5)]"
    by (simp add: state_literal_def)
  ultimately show ?thesis by simp
qed

subsection \<open>Restore: the polling bound\<close>

text \<open>
  C2. The interval callback increments \<open>tries\<close> before it tests \<open>tries > 20\<close>, so it runs
  at ticks \<open>1\<close> to \<open>21\<close>. An element that reports ready only at the 21st tick is still
  restored, and for an element that never reports ready the interval is cleared at the
  21st tick, not the 20th.
\<close>

theorem polling_makes_21_attempts:
  "js_restore_state (state_literal ''#/song?id=1'' 42 False) (Some (ready_from 21 (Finite 200))) None
     = Succeeded 21 [SetCurrentTime 42, AudioPlay]
   \<and> js_restore_state (state_literal ''#/song?id=1'' 42 False) (Some never_ready) None
     = Exhausted 21"
proof
  show "js_restore_state (state_literal ''#/song?id=1'' 42 False) (Some (ready_from 21 (Finite 200))) None
      = Succeeded 21 [SetCurrentTime 42, AudioPlay]"
    by (rule restore_script_succeeds [where t = 42])
      (simp_all add: state_literal_def setOnce_def ready_from_def Math_min_def js_or_def)
  show "js_restore_state (state_literal ''#/song?id=1'' 42 False) (Some never_ready) None
      = Exhausted 21"
    by (rule restore_script_exhausted [where t = 42])
      (simp_all add: state_literal_def setOnce_def never_ready_def)
qed

subsection \<open>Round trip\<close>

text \<open>
  C1, as stated, promises that after a capture of a descriptor with \<open>paused = false\<close> the next
  restore resumes playback. The script resumes only from within a successful
  \<^verbatim>\<open>setOnce\<close>: with an audio element that stays at \<open>readyState = 0\<close> through the immediate
  attempt and all ticks of the interval, the captured descriptor of a playing page is
  handed over, and the run ends exhausted without a position set or a \<^verbatim>\<open>play()\<close> call.
\<close>

theorem round_trip_counterexample:
  "restore demo_codec True (capture demo_codec tick1 playing_page (demo_storage None))
     (Some never_ready) None
   = (demo_storage (Some ''{id:#/song?id=1;paused:false;saved_at:2025-01-01T00:00:04Z;time:42;}''),
      Some (Exhausted 21))"
proof -
  let ?fs = "demo_storage (Some ''{id:#/song?id=1;paused:false;saved_at:2025-01-01T00:00:04Z;time:42;}'')"
  let ?state = "state_literal ''#/song?id=1'' 42 False"
  have "loadFinished demo_codec True ?fs
      = (?fs, Some (rebuild_state (object (DocObject
          ((descriptor_json playing_descriptor)(''saved_at'' \<mapsto> JString tick1))))))"
    by (rule loadFinished_parsed [OF _ _ _ playing_saved_parse]) (simp_all add: demo_storage_def)
  moreover have "rebuild_state (object (DocObject
          ((descriptor_json playing_descriptor)(''saved_at'' \<mapsto> JString tick1)))) = ?state"
    by (simp add: object_def rebuild_state_saved_at descriptor_json_def playing_descriptor_def
        rebuild_state_fields)
  moreover have "js_restore_state ?state (Some never_ready) None = Exhausted 21"
    by (rule restore_script_exhausted [where t = 42])
      (simp_all add: state_literal_def setOnce_def never_ready_def)
  ultimately show ?thesis
    by (simp add: playing_capture restore_def)
qed

text \<open>
  C1, amended. Let the capture callback parse an extraction result whose object has a string
  \<open>id\<close>, a number \<open>time\<close> and a boolean \<open>paused\<close>, and write it; let the codec read the written
  text back as the object written. Then the next restore on a successful load hands the
  script exactly that \<open>id\<close>, \<open>time\<close> and \<open>paused\<close>, and the script does the following.
  \<^item> With an audio element that first reports ready at the immediate attempt or at one of
    the first 20 polls, with any duration a media element can report: it assigns a position
    that is at most \<open>time\<close> (and non-negative when \<open>time\<close> is), namely \<open>min time d\<close> for a
    positive duration \<open>d\<close> and \<open>time\<close> for an unknown (\<open>NaN\<close>) or unbounded (\<open>+Infinity\<close>)
    duration, and it calls \<^verbatim>\<open>play()\<close> if and only if \<open>paused\<close> is false.
  \<^item> With an audio element that never reports ready: it gives up and does nothing to the
    page.
  \<^item> Without an audio element: when \<^verbatim>\<open>window.player.seek\<close> exists and returns, it seeks to
    \<open>time\<close> unclamped and, if and only if \<open>paused\<close> is false, calls \<^verbatim>\<open>window.player.play()\<close>
    (recorded when that call returns); without \<^verbatim>\<open>window.player\<close>, or when \<open>seek\<close> is missing or
    throws, it does nothing to the page.
\<close>

theorem round_trip:
  assumes "jsonStr \<noteq> []" and "fromJson c jsonStr = Some doc"
    and "object doc ''id'' = Some (JString i)"
    and "object doc ''time'' = Some (JDouble t)"
    and "object doc ''paused'' = Some (JBool p)"
    and "opens_WriteOnly fs" and "opens_ReadOnly fs"
    and "fromJson c (toJson c (DocObject ((object doc)(''saved_at'' \<mapsto> JString now))))
           = Some (DocObject ((object doc)(''saved_at'' \<mapsto> JString now)))"
  shows "loadFinished c True (stateTimer_callback c now (Some jsonStr) fs)
           = (stateTimer_callback c now (Some jsonStr) fs, Some (state_literal i t p))
    \<and> (\<forall>obs n. n \<le> 20 \<and> (\<forall>k<n. readyState (obs k) = 0) \<and> 0 < readyState (obs n)
            \<and> valid_duration (duration (obs n))
          \<longrightarrow> (\<exists>x. restore c True (stateTimer_callback c now (Some jsonStr) fs) (Some obs) pl
                  = (stateTimer_callback c now (Some jsonStr) fs,
                     Some (Succeeded n (SetCurrentTime x # (if p then [] else [AudioPlay]))))
                \<and> x \<le> t \<and> (0 \<le> t \<longrightarrow> 0 \<le> x)
                \<and> (\<forall>d. duration (obs n) = Finite d \<and> 0 < d \<longrightarrow> x = min t d)
                \<and> (duration (obs n) = NaN \<or> duration (obs n) = Infinity \<longrightarrow> x = t)))
    \<and> (\<forall>obs. (\<forall>k. readyState (obs k) = 0)
          \<longrightarrow> (\<exists>m. restore c True (stateTimer_callback c now (Some jsonStr) fs) (Some obs) pl
                = (stateTimer_callback c now (Some jsonStr) fs, Some (Exhausted m))))
    \<and> restore c True (stateTimer_callback c now (Some jsonStr) fs) None pl
        = (stateTimer_callback c now (Some jsonStr) fs,
           Some (Fallback
             (case pl of
                None \<Rightarrow> []
              | Some q \<Rightarrow>
                  (case seek q of
                     Returns _ \<Rightarrow>
                       PlayerSeek (Some (JDouble t)) #
                         (if p then [] else (case play q of Returns _ \<Rightarrow> [PlayerPlay] | _ \<Rightarrow> []))
                   | _ \<Rightarrow> []))))"
proof -
  let ?saved = "(object doc)(''saved_at'' \<mapsto> JString now)"
  let ?fs = "stateTimer_callback c now (Some jsonStr) fs"
  let ?state = "state_literal i t p"
  have fs: "?fs = write_file fs (toJson c (DocObject ?saved))"
    using assms(1,2) by (rule callback_parsed)
  have "contents ?fs = Some (toJson c (DocObject ?saved))" and "opens_ReadOnly ?fs"
    using assms(6,7) by (simp_all add: fs write_file_contents)
  then have "loadFinished c True ?fs = (?fs, Some (rebuild_state (object (DocObject ?saved))))"
    using assms(8) by (intro loadFinished_parsed) simp_all
  moreover have "rebuild_state (object (DocObject ?saved)) = ?state"
    using assms(3,4,5)
    by (simp add: object_def rebuild_state_saved_at rebuild_state_fields)
  ultimately have load: "loadFinished c True ?fs = (?fs, Some ?state)"
    by simp
  have run: "restore c True ?fs au pl = (?fs, Some (js_restore_state ?state au pl))" for au
    by (simp add: restore_def load)
  have time: "?state ''time'' = Some (JDouble t)"
    by (simp add: state_literal_def)
  have ready: "\<exists>x. restore c True ?fs (Some obs) pl
        = (?fs, Some (Succeeded n (SetCurrentTime x # (if p then [] else [AudioPlay]))))
      \<and> x \<le> t \<and> (0 \<le> t \<longrightarrow> 0 \<le> x)
      \<and> (\<forall>d. duration (obs n) = Finite d \<and> 0 < d \<longrightarrow> x = min t d)
      \<and> (duration (obs n) = NaN \<or> duration (obs n) = Infinity \<longrightarrow> x = t)"
    if "n \<le> 20 \<and> (\<forall>k<n. readyState (obs k) = 0) \<and> 0 < readyState (obs n)
      \<and> valid_duration (duration (obs n))" for obs n
  proof -
    from that have n: "n \<le> 21" and before: "\<forall>k<n. readyState (obs k) = 0"
      and now_ready: "0 < readyState (obs n)" and valid: "valid_duration (duration (obs n))"
      by simp_all
    from setOnce_literal [OF now_ready valid, of i t p]
    obtain x where once: "setOnce ?state t (obs n)
          = Some (SetCurrentTime x # (if p then [] else [AudioPlay]))"
      and bounds: "x \<le> t" "0 \<le> t \<longrightarrow> 0 \<le> x"
        "\<forall>d. duration (obs n) = Finite d \<and> 0 < d \<longrightarrow> x = min t d"
        "duration (obs n) = NaN \<or> duration (obs n) = Infinity \<longrightarrow> x = t"
      by blast
    have "\<forall>k<n. setOnce ?state t (obs k) = None"
      using before by (simp add: setOnce_not_ready)
    with time n have "js_restore_state ?state (Some obs) pl
        = Succeeded n (SetCurrentTime x # (if p then [] else [AudioPlay]))"
      using once by (rule restore_script_succeeds)
    then have "restore c True ?fs (Some obs) pl
        = (?fs, Some (Succeeded n (SetCurrentTime x # (if p then [] else [AudioPlay]))))"
      by (simp only: run)
    with bounds show ?thesis by blast
  qed
  have never: "\<exists>m. restore c True ?fs (Some obs) pl = (?fs, Some (Exhausted m))"
    if "\<forall>k. readyState (obs k) = 0" for obs
  proof -
    have "\<forall>k\<le>21. setOnce ?state t (obs k) = None"
      using that by (simp add: setOnce_not_ready)
    with time have "js_restore_state ?state (Some obs) pl = Exhausted 21"
      by (rule restore_script_exhausted)
    then have "restore c True ?fs (Some obs) pl = (?fs, Some (Exhausted 21))"
      by (simp only: run)
    then show ?thesis ..
  qed
  have fallback: "restore c True ?fs None pl
        = (?fs,
           Some (Fallback
             (case pl of
                None \<Rightarrow> []
              | Some q \<Rightarrow>
                  (case seek q of
                     Returns _ \<Rightarrow>
                       PlayerSeek (Some (JDouble t)) #
                         (if p then [] else (case play q of Returns _ \<Rightarrow> [PlayerPlay] | _ \<Rightarrow> []))
                   | _ \<Rightarrow> []))))"
    by (simp only: run restore_script_fallback)
  from load ready never fallback show ?thesis
    by (intro conjI allI impI)
qed

text \<open>
  The witness runs a playing page through capture and restore three times: onto an audio
  element that reports ready at the 15th poll with a duration of 200 seconds, onto one with
  an unbounded duration that is ready at once, and onto a page without an audio element
  whose \<^verbatim>\<open>window.player\<close> has working \<open>seek\<close> and \<open>play\<close>.
\<close>

theorem round_trip_witness:
  "restore demo_codec True
     (stateTimer_callback demo_codec tick1 (Some ''{id:#/song?id=1;paused:false;time:42;}'')
        (demo_storage None))
     (Some (ready_from 15 (Finite 200))) None
   = (demo_storage (Some ''{id:#/song?id=1;paused:false;saved_at:2025-01-01T00:00:04Z;time:42;}''),
      Some (Succeeded 15 [SetCurrentTime 42, AudioPlay]))
   \<and> restore demo_codec True
     (stateTimer_callback demo_codec tick1 (Some ''{id:#/song?id=1;paused:false;time:42;}'')
        (demo_storage None))
     (Some (ready_from 0 Infinity)) None
   = (demo_storage (Some ''{id:#/song?id=1;paused:false;saved_at:2025-01-01T00:00:04Z;time:42;}''),
      Some (Succeeded 0 [SetCurrentTime 42, AudioPlay]))
   \<and> restore demo_codec True
     (stateTimer_callback demo_codec tick1 (Some ''{id:#/song?id=1;paused:false;time:42;}'')
        (demo_storage None))
     None (Some working_player)
   = (demo_storage (Some ''{id:#/song?id=1;paused:false;saved_at:2025-01-01T00:00:04Z;time:42;}''),
      Some (Fallback [PlayerSeek (Some (JDouble 42)), PlayerPlay]))"
proof -
  let ?fs = "stateTimer_callback demo_codec tick1 (Some ''{id:#/song?id=1;paused:false;time:42;}'')
        (demo_storage None)"
  have nonempty: "''{id:#/song?id=1;paused:false;time:42;}'' \<noteq> []"
    by simp
  have fields: "object (DocObject (descriptor_json playing_descriptor)) ''id'' = Some (JString ''#/song?id=1'')"
    "object (DocObject (descriptor_json playing_descriptor)) ''time'' = Some (JDouble 42)"
    "object (DocObject (descriptor_json playing_descriptor)) ''paused'' = Some (JBool False)"
    by (simp_all add: object_def descriptor_json_def playing_descriptor_def)
  have opens: "opens_WriteOnly (demo_storage None)" "opens_ReadOnly (demo_storage None)"
    by (simp_all add: demo_storage_def)
  have reread: "fromJson demo_codec (toJson demo_codec (DocObject
        ((object (DocObject (descriptor_json playing_descriptor)))(''saved_at'' \<mapsto> JString tick1))))
      = Some (DocObject ((object (DocObject (descriptor_json playing_descriptor)))(''saved_at'' \<mapsto> JString tick1)))"
    by (simp add: object_def playing_saved_text playing_saved_parse)
  have fs: "?fs
      = demo_storage (Some ''{id:#/song?id=1;paused:false;saved_at:2025-01-01T00:00:04Z;time:42;}'')"
    using playing_capture [of None] by (simp add: capture_def playing_extraction)
  note audio_branch = round_trip [OF nonempty playing_parse fields opens reread,
      THEN conjunct2, THEN conjunct1, rule_format]
  note player_branch = round_trip [OF nonempty playing_parse fields opens reread,
      THEN conjunct2, THEN conjunct2, THEN conjunct2]
  have late: "15 \<le> (20::nat) \<and> (\<forall>k<15. readyState (ready_from 15 (Finite 200) k) = 0)
      \<and> 0 < readyState (ready_from 15 (Finite 200) 15)
      \<and> valid_duration (duration (ready_from 15 (Finite 200) 15))"
    by (simp add: ready_from_def)
  have late_duration: "duration (ready_from 15 (Finite 200) 15) = Finite 200"
    by (simp add: ready_from_def)
  from audio_branch [OF late, of None]
  obtain x where late_run: "restore demo_codec True ?fs (Some (ready_from 15 (Finite 200))) None
      = (?fs, Some (Succeeded 15 (SetCurrentTime x # (if False then [] else [AudioPlay]))))"
    and late_min: "\<forall>d. duration (ready_from 15 (Finite 200) 15) = Finite d \<and> 0 < d \<longrightarrow> x = min 42 d"
    by blast
  from late_min late_duration have "x = 42"
    by simp
  with late_run
  have first: "restore demo_codec True ?fs (Some (ready_from 15 (Finite 200))) None
      = (?fs, Some (Succeeded 15 [SetCurrentTime 42, AudioPlay]))"
    by simp
  have stream: "0 \<le> (20::nat) \<and> (\<forall>k<0. readyState (ready_from 0 Infinity k) = 0)
      \<and> 0 < readyState (ready_from 0 Infinity 0)
      \<and> valid_duration (duration (ready_from 0 Infinity 0))"
    by (simp add: ready_from_def)
  have stream_duration: "duration (ready_from 0 Infinity 0) = Infinity"
    by (simp add: ready_from_def)
  from audio_branch [OF stream, of None]
  obtain y where stream_run: "restore demo_codec True ?fs (Some (ready_from 0 Infinity)) None
      = (?fs, Some (Succeeded 0 (SetCurrentTime y # (if False then [] else [AudioPlay]))))"
    and stream_position: "duration (ready_from 0 Infinity 0) = NaN
        \<or> duration (ready_from 0 Infinity 0) = Infinity \<longrightarrow> y = 42"
    by blast
  from stream_position stream_duration have "y = 42"
    by simp
  with stream_run
  have second: "restore demo_codec True ?fs (Some (ready_from 0 Infinity)) None
      = (?fs, Some (Succeeded 0 [SetCurrentTime 42, AudioPlay]))"
    by simp
  have third: "restore demo_codec True ?fs None (Some working_player)
      = (?fs, Some (Fallback [PlayerSeek (Some (JDouble 42)), PlayerPlay]))"
    using player_branch [of "Some working_player"] by (simp add: working_player_def)
  from first second third show ?thesis
    by (simp only: fs)
qed

end
